theory Spec2Isabelle
  imports Main
begin

section \<open>LogBox: the console interceptor of Libraries/LogBox/LogBox.js (development build)\<close>

text \<open>
  The theory embeds the \<^verbatim>\<open>__DEV__\<close> branch of \<^verbatim>\<open>LogBox.js\<close>: the module
  variables (lines 39-44), \<^verbatim>\<open>install\<close>, \<^verbatim>\<open>uninstall\<close>, \<^verbatim>\<open>addLog\<close>,
  \<^verbatim>\<open>addException\<close> and the two classifiers \<^verbatim>\<open>registerWarning\<close> and
  \<^verbatim>\<open>registerError\<close>. Mutation is explicit state passing; every call that leaves the
  module (the host's console functions, \<^verbatim>\<open>LogBoxData\<close>, \<^verbatim>\<open>RCTLog\<close>) is appended to
  a trace of effects, in program order; a JavaScript exception is the outcome
  \<open>Thrown\<close>, which keeps the state reached when it was raised.

  Left out: the production branch (lines 242-276, every method empty), \<^verbatim>\<open>ignoreLogs\<close>
  (it only hands its patterns to \<^verbatim>\<open>LogBoxData\<close>, whose answer to \<^verbatim>\<open>isMessageIgnored\<close>
  is a parameter here), and writes to \<^verbatim>\<open>console.disableYellowBox\<close> by code outside the
  module. What a host function does once called, calling back into the module included,
  is outside the model.
\<close>

subsection \<open>Values, records and function references\<close>

text \<open>
  A JavaScript argument. The module only inspects whether \<^verbatim>\<open>args[0]\<close> is a string and
  what \<^verbatim>\<open>String(args[0])\<close> is, so numbers, objects and symbols are one opaque case
  \<open>Other\<close>, whose string conversion is the environment's (it may throw).
\<close>

datatype jsval = Str string | Undefined | Null | Bool bool | Other nat

datatype exn = TypeError | RangeError | Raised nat

datatype level = Warn | Error | Fatal

record message =
  content :: string
  substitutions :: "(nat \<times> nat) list"

record parsed =
  category :: string
  message :: message
  componentStack :: "string list"

record logdata = parsed +
  level :: level

datatype exception_data = ExceptionRef nat

record filter_result =
  suppressCompletely :: bool
  suppressDialog_LEGACY :: bool
  forceDialogImmediately :: bool
  finalFormat :: string

text \<open>
  Function objects by identity. \<open>Host n\<close> is a function the module did not create (the
  platform's console method, another interceptor's decorator); \<open>Bound f\<close> is the object
  \<^verbatim>\<open>f.bind(console)\<close>; \<open>ErrorWrapper\<close> and \<open>WarnWrapper\<close> are the two arrows of
  lines 66 and 70; \<open>RegisterErrorFn\<close> and \<open>RegisterWarningFn\<close> are the classifiers.
\<close>

datatype fn = Host nat | Bound fn | ErrorWrapper | WarnWrapper | RegisterErrorFn | RegisterWarningFn

text \<open>
  A property of the \<^verbatim>\<open>console\<close> object other than \<^verbatim>\<open>error\<close> and \<^verbatim>\<open>warn\<close>: a data
  property, or the accessor of lines 85-94.
\<close>

datatype console_prop = DataProp jsval | LegacyAccessor

datatype effect =
    HostCall fn "jsval list"
  | HostBind fn
  | RequireNativeLogBox
  | RCTLogSetWarningHandler
  | StoreSetDisabled bool
  | StoreAddLog logdata
  | StoreAddException exception_data
  | StoreReportLogBoxError exn
  | StoreClear

record state =
  isLogBoxInstalled :: bool
  originalConsoleError :: "fn option"
  originalConsoleWarn :: "fn option"
  consoleErrorImpl :: "fn option"
  consoleWarnImpl :: "fn option"
  console_error :: fn
  console_warn :: fn
  console_props :: "string \<Rightarrow> console_prop option"
  disabled :: bool
  effects :: "effect list"

datatype outcome = Done state | Thrown exn state

text \<open>
  The collaborators that are not in this file, as parameters: \<^verbatim>\<open>Platform.isTesting\<close>, the
  queries of \<^verbatim>\<open>LogBoxData\<close>, the two parsers of \<^verbatim>\<open>parseLogBoxLog\<close>, and the string
  conversion of an opaque value. The parsers and the filter lookup stand inside the
  source's \<^verbatim>\<open>try\<close> blocks and may throw (\<open>Inl\<close>).
\<close>

record env =
  isTesting :: bool
  isLogBoxErrorMessage :: "jsval \<Rightarrow> bool"
  isMessageIgnored :: "string \<Rightarrow> bool"
  checkWarningFilter :: "string \<Rightarrow> exn + filter_result"
  parseLogBoxLog :: "jsval list \<Rightarrow> exn + parsed"
  parseInterpolation :: "jsval list \<Rightarrow> exn + parsed"
  toStringOther :: "nat \<Rightarrow> exn + string"

subsection \<open>Strings\<close>

definition startsWith :: "string \<Rightarrow> string \<Rightarrow> bool" where
  "startsWith s p = (take (length p) s = p)"

text \<open>\<^verbatim>\<open>s.replace(pat, rep)\<close> with a string pattern: the first occurrence only.\<close>

fun js_replace :: "string \<Rightarrow> string \<Rightarrow> string \<Rightarrow> string" where
  "js_replace [] pat rep = (if pat = [] then rep else [])"
| "js_replace (c # cs) pat rep =
     (if startsWith (c # cs) pat then rep @ drop (length pat) (c # cs)
      else c # js_replace cs pat rep)"

definition arg0 :: "jsval list \<Rightarrow> jsval" where
  "arg0 args = (case args of [] \<Rightarrow> Undefined | a # _ \<Rightarrow> a)"

fun js_String :: "env \<Rightarrow> jsval \<Rightarrow> exn + string" where
  "js_String E (Str s) = Inr s"
| "js_String E Undefined = Inr ''undefined''"
| "js_String E Null = Inr ''null''"
| "js_String E (Bool b) = Inr (if b then ''true'' else ''false'')"
| "js_String E (Other n) = toStringOther E n"

subsection \<open>Effects\<close>

definition emit :: "effect \<Rightarrow> state \<Rightarrow> state" where
  "emit e s = s\<lparr>effects := effects s @ [e]\<rparr>"

text \<open>
  Calling the value of \<^verbatim>\<open>originalConsoleError\<close> or \<^verbatim>\<open>originalConsoleWarn\<close>. The
  variable is \<^verbatim>\<open>undefined\<close> before the first install (a \<^verbatim>\<open>TypeError\<close>); afterwards it
  holds the bound host function. What the host's console function prints is outside the
  module: its call is recorded with its arguments, and it returns.
\<close>

definition call_original :: "fn option \<Rightarrow> jsval list \<Rightarrow> state \<Rightarrow> outcome" where
  "call_original f args s =
     (case f of None \<Rightarrow> Thrown TypeError s | Some g \<Rightarrow> Done (emit (HostCall g args) s))"

text \<open>
  Modelled from the spec: \<^verbatim>\<open>LogBoxData\<close> (Libraries/LogBox/Data/LogBoxData.js) is not
  among the sources. \<^verbatim>\<open>setDisabled\<close> stores the flag that \<^verbatim>\<open>isDisabled\<close> returns;
  \<^verbatim>\<open>addLog\<close>, \<^verbatim>\<open>addException\<close> and \<^verbatim>\<open>reportLogBoxError\<close> receive their argument and
  return.
\<close>

definition store_setDisabled :: "bool \<Rightarrow> state \<Rightarrow> state" where
  "store_setDisabled b s = emit (StoreSetDisabled b) (s\<lparr>disabled := b\<rparr>)"

definition store_addLog :: "logdata \<Rightarrow> state \<Rightarrow> state" where
  "store_addLog l s = emit (StoreAddLog l) s"

definition store_addException :: "exception_data \<Rightarrow> state \<Rightarrow> state" where
  "store_addException x s = emit (StoreAddException x) s"

definition store_reportLogBoxError :: "exn \<Rightarrow> state \<Rightarrow> state" where
  "store_reportLogBoxError err s = emit (StoreReportLogBoxError err) s"

subsection \<open>The classifiers (lines 150-241)\<close>

definition isRCTLogAdviceWarning :: "jsval list \<Rightarrow> bool" where
  "isRCTLogAdviceWarning args =
     (case arg0 args of Str a \<Rightarrow> startsWith a ''(ADVICE)'' | _ \<Rightarrow> False)"

definition isWarningModuleWarning :: "jsval list \<Rightarrow> bool" where
  "isWarningModuleWarning args =
     (case arg0 args of Str a \<Rightarrow> startsWith a ''Warning: '' | _ \<Rightarrow> False)"

text \<open>\<^verbatim>\<open>catch (err) { LogBoxData.reportLogBoxError(err); }\<close>\<close>

definition catch_report :: "outcome \<Rightarrow> outcome" where
  "catch_report r =
     (case r of Done s \<Rightarrow> Done s | Thrown err s \<Rightarrow> Done (store_reportLogBoxError err s))"

text \<open>The body of the \<^verbatim>\<open>try\<close> block of \<^verbatim>\<open>registerWarning\<close>, lines 168-182.\<close>

definition registerWarning_try :: "env \<Rightarrow> jsval list \<Rightarrow> state \<Rightarrow> outcome" where
  "registerWarning_try E args s =
     (if \<not> isRCTLogAdviceWarning args then
        (case parseLogBoxLog E args of
           Inl err \<Rightarrow> Thrown err s
         | Inr p \<Rightarrow>
             if \<not> isMessageIgnored E (content (message p)) then
               (case call_original (originalConsoleWarn s) args s of
                  Thrown err s' \<Rightarrow> Thrown err s'
                | Done s' \<Rightarrow>
                    Done (store_addLog
                      \<lparr>category = category p, message = message p,
                       componentStack = componentStack p, level = Warn\<rparr> s'))
             else Done s)
      else Done s)"

definition registerWarning :: "env \<Rightarrow> jsval list \<Rightarrow> state \<Rightarrow> outcome" where
  "registerWarning E args s =
     (case js_String E (arg0 args) of
        Inl err \<Rightarrow> Thrown err s
      | Inr m \<Rightarrow>
          if isLogBoxErrorMessage E (Str m) then call_original (originalConsoleError s) args s
          else catch_report (registerWarning_try E args s))"

text \<open>
  The body of the \<^verbatim>\<open>try\<close> block of \<^verbatim>\<open>registerError\<close>, lines 196-237.
  \<^verbatim>\<open>args\<close> is the rest array of the call, so the assignment to \<^verbatim>\<open>args[0]\<close> is local.
  The last case (\<^verbatim>\<open>args[0]\<close> not a string, so no \<^verbatim>\<open>replace\<close> method) cannot be reached:
  \<^verbatim>\<open>isWarningModuleWarning\<close> has tested \<^verbatim>\<open>typeof args[0] === 'string'\<close>.
\<close>

definition registerError_try :: "env \<Rightarrow> jsval list \<Rightarrow> state \<Rightarrow> outcome" where
  "registerError_try E args s =
     (if \<not> isWarningModuleWarning args then call_original (originalConsoleError s) args s
      else
        (case arg0 args of
           Str a \<Rightarrow>
             (let format = js_replace a ''Warning: '' [] in
              case checkWarningFilter E format of
                Inl err \<Rightarrow> Thrown err s
              | Inr filterResult \<Rightarrow>
                  if suppressCompletely filterResult then Done s
                  else
                    (let lvl = (if suppressDialog_LEGACY filterResult then Warn
                                else if forceDialogImmediately filterResult then Fatal
                                else Error);
                         args' = args[0 := Str (''Warning: '' @ finalFormat filterResult)]
                     in case parseLogBoxLog E args' of
                          Inl err \<Rightarrow> Thrown err s
                        | Inr p \<Rightarrow>
                            if \<not> isMessageIgnored E (content (message p)) then
                              (case parseInterpolation E args' of
                                 Inl err \<Rightarrow> Thrown err s
                               | Inr interpolated \<Rightarrow>
                                   (case call_original (originalConsoleError s)
                                           [Str (content (message interpolated))] s of
                                      Thrown err s' \<Rightarrow> Thrown err s'
                                    | Done s' \<Rightarrow>
                                        Done (store_addLog
                                          \<lparr>category = category p, message = message p,
                                           componentStack = componentStack p, level = lvl\<rparr> s')))
                            else Done s))
         | _ \<Rightarrow> Thrown TypeError s))"

definition registerError :: "env \<Rightarrow> jsval list \<Rightarrow> state \<Rightarrow> outcome" where
  "registerError E args s =
     (if isLogBoxErrorMessage E (arg0 args) then call_original (originalConsoleError s) args s
      else catch_report (registerError_try E args s))"

subsection \<open>The console wrappers (lines 66-72)\<close>

text \<open>
  \<^verbatim>\<open>console.error = (...args) => { consoleErrorImpl(...args); }\<close>, and the same for
  \<^verbatim>\<open>warn\<close>. An arrow only forwards to the current value of its variable, so following
  the arrows ends after at most two hops: at a function that runs, at \<^verbatim>\<open>undefined\<close>
  (a \<^verbatim>\<open>TypeError\<close>), or in a cycle of the two arrows (the engine's \<^verbatim>\<open>RangeError\<close>).
\<close>

datatype callee = Callee fn | NotCallable | Overflow

fun forward :: "nat \<Rightarrow> state \<Rightarrow> fn \<Rightarrow> callee" where
  "forward 0 s f = (if f = ErrorWrapper \<or> f = WarnWrapper then Overflow else Callee f)"
| "forward (Suc k) s f =
     (if f = ErrorWrapper then
        (case consoleErrorImpl s of None \<Rightarrow> NotCallable | Some g \<Rightarrow> forward k s g)
      else if f = WarnWrapper then
        (case consoleWarnImpl s of None \<Rightarrow> NotCallable | Some g \<Rightarrow> forward k s g)
      else Callee f)"

text \<open>
  A call \<^verbatim>\<open>f(...args)\<close> of a function object: the classifiers run, any other function
  is the host's and its call is recorded.
\<close>

definition invoke :: "env \<Rightarrow> fn \<Rightarrow> jsval list \<Rightarrow> state \<Rightarrow> outcome" where
  "invoke E f args s =
     (case forward (Suc (Suc 0)) s f of
        NotCallable \<Rightarrow> Thrown TypeError s
      | Overflow \<Rightarrow> Thrown RangeError s
      | Callee g \<Rightarrow>
          if g = RegisterErrorFn then registerError E args s
          else if g = RegisterWarningFn then registerWarning E args s
          else Done (emit (HostCall g args) s))"

subsection \<open>The control surface (lines 46-148)\<close>

definition deprecation_notice :: string where
  "deprecation_notice =
     ''console.disableYellowBox has been deprecated and will be removed in a future release. Please use LogBox.ignoreAllLogs(value) instead.''"

text \<open>
  Reading \<^verbatim>\<open>console[name]\<close>: a missing property is \<^verbatim>\<open>undefined\<close>, the accessor's getter
  is \<^verbatim>\<open>() => LogBoxData.isDisabled()\<close>.
\<close>

definition console_get :: "state \<Rightarrow> string \<Rightarrow> jsval" where
  "console_get s name =
     (case console_props s name of
        None \<Rightarrow> Undefined
      | Some (DataProp v) \<Rightarrow> v
      | Some LegacyAccessor \<Rightarrow> Bool (disabled s))"

text \<open>Lines 60-73: the capture of the original entry points, on the first install only.\<close>

definition capture_originals :: "state \<Rightarrow> state" where
  "capture_originals s =
     (if originalConsoleError s = None then
        (emit (HostBind (console_warn s)) (emit (HostBind (console_error s)) s))
          \<lparr>originalConsoleError := Some (Bound (console_error s)),
           originalConsoleWarn := Some (Bound (console_warn s)),
           console_error := ErrorWrapper,
           console_warn := WarnWrapper\<rparr>
      else s)"

text \<open>
  Lines 78-83: the legacy flag, read before the accessor is (re)defined. \<^verbatim>\<open>console.warn\<close>
  is whatever function the console holds at that moment.
\<close>

definition migrate_legacy_flag :: "env \<Rightarrow> state \<Rightarrow> outcome" where
  "migrate_legacy_flag E s =
     (if console_get s ''disableYellowBox'' = Bool True then
        (let s' = store_setDisabled True s
         in invoke E (console_warn s') [Str deprecation_notice] s')
      else Done s)"

text \<open>
  \<^verbatim>\<open>Object.defineProperty\<close> (line 85) and \<^verbatim>\<open>delete\<close> (line 118) act on configurable
  properties of an ordinary object and succeed.
\<close>

definition install :: "env \<Rightarrow> state \<Rightarrow> outcome" where
  "install E s =
     (if isLogBoxInstalled s then Done s
      else
        (let s1 = emit RequireNativeLogBox (s\<lparr>isLogBoxInstalled := True\<rparr>);
             s2 = capture_originals s1;
             s3 = s2\<lparr>consoleErrorImpl := Some RegisterErrorFn,
                     consoleWarnImpl := Some RegisterWarningFn\<rparr>
         in case migrate_legacy_flag E s3 of
              Thrown err s' \<Rightarrow> Thrown err s'
            | Done s4 \<Rightarrow>
                (let s5 = s4\<lparr>console_props :=
                             (console_props s4)(''disableYellowBox'' \<mapsto> LegacyAccessor)\<rparr>;
                     s6 = (if isTesting E then store_setDisabled True s5 else s5)
                 in Done (emit RCTLogSetWarningHandler s6))))"

definition uninstall :: "state \<Rightarrow> state" where
  "uninstall s =
     (if \<not> isLogBoxInstalled s then s
      else s\<lparr>isLogBoxInstalled := False,
             consoleErrorImpl := originalConsoleError s,
             consoleWarnImpl := originalConsoleWarn s,
             console_props := (console_props s)(''disableLogBox'' := None)\<rparr>)"

definition isInstalled :: "state \<Rightarrow> bool" where
  "isInstalled s = isLogBoxInstalled s"

definition ignoreAllLogs :: "bool option \<Rightarrow> state \<Rightarrow> state" where
  "ignoreAllLogs v s = store_setDisabled (case v of None \<Rightarrow> True | Some b \<Rightarrow> b) s"

definition clearAllLogs :: "state \<Rightarrow> state" where
  "clearAllLogs s = emit StoreClear s"

definition addLog :: "logdata \<Rightarrow> state \<Rightarrow> state" where
  "addLog l s = (if isLogBoxInstalled s then store_addLog l s else s)"

definition addException :: "exception_data \<Rightarrow> state \<Rightarrow> state" where
  "addException x s = (if isLogBoxInstalled s then store_addException x s else s)"

subsection \<open>Runs of the module\<close>

text \<open>
  The state when the module has been loaded and nothing called (lines 39-44), given the
  host's console functions, the other properties of \<^verbatim>\<open>console\<close> and the store's flag.
\<close>

definition loaded :: "fn \<Rightarrow> fn \<Rightarrow> (string \<Rightarrow> console_prop option) \<Rightarrow> bool \<Rightarrow> state" where
  "loaded ce cw props d =
     \<lparr>isLogBoxInstalled = False,
      originalConsoleError = None, originalConsoleWarn = None,
      consoleErrorImpl = None, consoleWarnImpl = None,
      console_error = ce, console_warn = cw,
      console_props = props, disabled = d, effects = []\<rparr>"

fun state_of :: "outcome \<Rightarrow> state" where
  "state_of (Done s) = s"
| "state_of (Thrown err s) = s"

text \<open>
  What the application can do to the module: the control surface, and a call of
  whatever function \<^verbatim>\<open>console.error\<close> or \<^verbatim>\<open>console.warn\<close> currently is. An exception
  reaches the caller, and the next call finds the state the failed one left.
\<close>

datatype op =
    Install
  | Uninstall
  | ConsoleError "jsval list"
  | ConsoleWarn "jsval list"
  | AddLog logdata
  | AddException exception_data

fun step :: "env \<Rightarrow> state \<Rightarrow> op \<Rightarrow> state" where
  "step E s Install = state_of (install E s)"
| "step E s Uninstall = uninstall s"
| "step E s (ConsoleError args) = state_of (invoke E (console_error s) args s)"
| "step E s (ConsoleWarn args) = state_of (invoke E (console_warn s) args s)"
| "step E s (AddLog l) = addLog l s"
| "step E s (AddException x) = addException x s"

definition run :: "env \<Rightarrow> op list \<Rightarrow> state \<Rightarrow> state" where
  "run E ops s = foldl (step E) s ops"

text \<open>The original entry points captured so far: one \<open>HostBind\<close> per \<^verbatim>\<open>bind\<close> call.\<close>

fun is_capture :: "effect \<Rightarrow> bool" where
  "is_capture (HostBind f) = True"
| "is_capture e = False"

definition captures :: "state \<Rightarrow> effect list" where
  "captures s = filter is_capture (effects s)"

text \<open>The levels of the records handed to \<^verbatim>\<open>LogBoxData.addLog\<close>, in order.\<close>

definition log_levels :: "state \<Rightarrow> level list" where
  "log_levels s = concat (map (\<lambda>e. case e of StoreAddLog l \<Rightarrow> [level l] | _ \<Rightarrow> []) (effects s))"

text \<open>The calls that reached the host's functions, in order.\<close>

definition host_calls :: "state \<Rightarrow> effect list" where
  "host_calls s = filter (\<lambda>e. case e of HostCall f args \<Rightarrow> True | _ \<Rightarrow> False) (effects s)"

subsection \<open>A concrete environment and process, for evaluation\<close>

definition demo_parse :: "jsval list \<Rightarrow> exn + parsed" where
  "demo_parse args =
     (case arg0 args of
        Str a \<Rightarrow>
          if a = ''Warning: unparsable'' then Inl (Raised 2)
          else Inr \<lparr>category = a, message = \<lparr>content = a, substitutions = []\<rparr>,
                    componentStack = []\<rparr>
      | _ \<Rightarrow> Inl (Raised 2))"

definition demo_filter :: "string \<Rightarrow> exn + filter_result" where
  "demo_filter f =
     (if f = ''no table'' then Inl (Raised 1)
      else Inr \<lparr>suppressCompletely = (f = ''hidden''),
                suppressDialog_LEGACY = (f = ''both'' \<or> f = ''legacy''),
                forceDialogImmediately = (f = ''both'' \<or> f = ''force''),
                finalFormat = f\<rparr>)"

definition demo_interpolate :: "jsval list \<Rightarrow> exn + parsed" where
  "demo_interpolate args =
     (if arg0 args = Str ''Warning: %s %s'' then Inl (Raised 3) else demo_parse args)"

definition demo_env :: env where
  "demo_env =
     \<lparr>isTesting = False,
      isLogBoxErrorMessage = (\<lambda>v. v = Str ''An error was thrown when attempting to render log messages via LogBox.''),
      isMessageIgnored = (\<lambda>c. c = ''Warning: ignored''),
      checkWarningFilter = demo_filter,
      parseLogBoxLog = demo_parse,
      parseInterpolation = demo_interpolate,
      toStringOther = (\<lambda>n. Inr ''[object Object]'')\<rparr>"

definition demo_loaded :: state where
  "demo_loaded = loaded (Host 0) (Host 1) Map.empty False"

definition demo_installed :: state where
  "demo_installed = state_of (install demo_env demo_loaded)"

definition demo_log :: logdata where
  "demo_log = \<lparr>category = ''c'', message = \<lparr>content = ''m'', substitutions = []\<rparr>,
               componentStack = [], level = Warn\<rparr>"

subsection \<open>Invariants of a run\<close>

text \<open>
  \<open>store_only s s'\<close>: from \<open>s\<close> to \<open>s'\<close> only the store's flag and the trace changed, and
  nothing was captured. \<open>pristine\<close> holds until the first install, \<open>intercepting\<close> from
  then on.
\<close>

definition store_only :: "state \<Rightarrow> state \<Rightarrow> bool" where
  "store_only s s' =
     (s' = s\<lparr>disabled := disabled s', effects := effects s'\<rparr> \<and> captures s' = captures s)"

definition pristine :: "fn \<Rightarrow> fn \<Rightarrow> state \<Rightarrow> bool" where
  "pristine ce cw s =
     (\<not> isLogBoxInstalled s \<and> originalConsoleError s = None \<and> originalConsoleWarn s = None
      \<and> consoleErrorImpl s = None \<and> consoleWarnImpl s = None
      \<and> console_error s = ce \<and> console_warn s = cw \<and> captures s = [])"

definition intercepting :: "fn \<Rightarrow> fn \<Rightarrow> state \<Rightarrow> bool" where
  "intercepting ce cw s =
     (originalConsoleError s = Some (Bound ce) \<and> originalConsoleWarn s = Some (Bound cw)
      \<and> console_error s = ErrorWrapper \<and> console_warn s = WarnWrapper
      \<and> captures s = [HostBind ce, HostBind cw]
      \<and> consoleErrorImpl s = (if isLogBoxInstalled s then Some RegisterErrorFn else Some (Bound ce))
      \<and> consoleWarnImpl s = (if isLogBoxInstalled s then Some RegisterWarningFn else Some (Bound cw)))"

section \<open>Frame lemmas\<close>

lemma store_only_refl: "store_only s s"
  by (simp add: store_only_def)

lemma store_only_emit: "\<not> is_capture e \<Longrightarrow> store_only s (emit e s)"
  by (simp add: store_only_def emit_def captures_def)

lemma store_only_setDisabled: "store_only s (store_setDisabled b s)"
  by (simp add: store_only_def store_setDisabled_def emit_def captures_def)

lemma store_only_trans: "store_only s s' \<Longrightarrow> store_only s' s'' \<Longrightarrow> store_only s s''"
  by (cases s; cases s'; cases s'') (simp add: store_only_def captures_def)

lemma store_only_fields:
  assumes "store_only s s'"
  shows "isLogBoxInstalled s' = isLogBoxInstalled s"
    and "originalConsoleError s' = originalConsoleError s"
    and "originalConsoleWarn s' = originalConsoleWarn s"
    and "consoleErrorImpl s' = consoleErrorImpl s"
    and "consoleWarnImpl s' = consoleWarnImpl s"
    and "console_error s' = console_error s"
    and "console_warn s' = console_warn s"
    and "console_props s' = console_props s"
    and "captures s' = captures s"
  using assms by (cases s; cases s'; simp add: store_only_def)+

lemma store_only_call_original: "store_only s (state_of (call_original f args s))"
  by (simp add: call_original_def store_only_refl store_only_emit split: option.splits)

lemma store_only_catch_report:
  assumes that: "store_only s (state_of r)"
  shows "store_only s (state_of (catch_report r))"
proof (cases r)
  case (Done s')
  then show ?thesis using that by (simp add: catch_report_def)
next
  case (Thrown err s')
  have "store_only s' (emit (StoreReportLogBoxError err) s')"
    by (rule store_only_emit) simp
  with that Thrown show ?thesis
    by (simp add: catch_report_def store_reportLogBoxError_def store_only_trans)
qed

lemma store_only_registerWarning_try: "store_only s (state_of (registerWarning_try E args s))"
  by (auto simp: registerWarning_try_def call_original_def store_addLog_def store_only_refl
      intro!: store_only_emit store_only_trans[OF store_only_emit store_only_emit]
      split: sum.splits option.splits)

lemma store_only_registerWarning: "store_only s (state_of (registerWarning E args s))"
  by (auto simp: registerWarning_def store_only_refl
      intro!: store_only_call_original store_only_catch_report store_only_registerWarning_try
      split: sum.splits)

lemma store_only_registerError_try: "store_only s (state_of (registerError_try E args s))"
  by (auto simp: registerError_try_def call_original_def store_addLog_def store_only_refl Let_def
      intro!: store_only_emit store_only_trans[OF store_only_emit store_only_emit]
      split: sum.splits option.splits jsval.splits)

lemma store_only_registerError: "store_only s (state_of (registerError E args s))"
  by (auto simp: registerError_def
      intro!: store_only_call_original store_only_catch_report store_only_registerError_try)

lemma store_only_invoke: "store_only s (state_of (invoke E f args s))"
  by (auto simp: invoke_def store_only_refl
      intro!: store_only_registerError store_only_registerWarning store_only_emit
      split: callee.splits)

lemma store_only_migrate: "store_only s (state_of (migrate_legacy_flag E s))"
  by (auto simp: migrate_legacy_flag_def Let_def store_only_refl
      intro: store_only_trans[OF store_only_setDisabled store_only_invoke])

section \<open>Install, uninstall and the invariants\<close>

lemma install_fields:
  assumes "\<not> isLogBoxInstalled s"
  shows "isLogBoxInstalled (state_of (install E s))"
    and "originalConsoleError (state_of (install E s)) =
           (if originalConsoleError s = None then Some (Bound (console_error s))
            else originalConsoleError s)"
    and "originalConsoleWarn (state_of (install E s)) =
           (if originalConsoleError s = None then Some (Bound (console_warn s))
            else originalConsoleWarn s)"
    and "consoleErrorImpl (state_of (install E s)) = Some RegisterErrorFn"
    and "consoleWarnImpl (state_of (install E s)) = Some RegisterWarningFn"
    and "console_error (state_of (install E s)) =
           (if originalConsoleError s = None then ErrorWrapper else console_error s)"
    and "console_warn (state_of (install E s)) =
           (if originalConsoleError s = None then WarnWrapper else console_warn s)"
    and "captures (state_of (install E s)) =
           captures s @ (if originalConsoleError s = None
                         then [HostBind (console_error s), HostBind (console_warn s)] else [])"
proof -
  define s3 where "s3 = (capture_originals (emit RequireNativeLogBox (s\<lparr>isLogBoxInstalled := True\<rparr>)))
      \<lparr>consoleErrorImpl := Some RegisterErrorFn, consoleWarnImpl := Some RegisterWarningFn\<rparr>"
  define s4 where "s4 = state_of (migrate_legacy_flag E s3)"
  have fr: "store_only s3 s4"
    unfolding s4_def by (rule store_only_migrate)
  note f = store_only_fields[OF fr]
  have s3_fields:
    "isLogBoxInstalled s3"
    "originalConsoleError s3 =
       (if originalConsoleError s = None then Some (Bound (console_error s)) else originalConsoleError s)"
    "originalConsoleWarn s3 =
       (if originalConsoleError s = None then Some (Bound (console_warn s)) else originalConsoleWarn s)"
    "consoleErrorImpl s3 = Some RegisterErrorFn"
    "consoleWarnImpl s3 = Some RegisterWarningFn"
    "console_error s3 = (if originalConsoleError s = None then ErrorWrapper else console_error s)"
    "console_warn s3 = (if originalConsoleError s = None then WarnWrapper else console_warn s)"
    "captures s3 = captures s @ (if originalConsoleError s = None
                         then [HostBind (console_error s), HostBind (console_warn s)] else [])"
    by (simp_all add: s3_def capture_originals_def emit_def captures_def)
  have res: "state_of (install E s) = s4 \<or>
     state_of (install E s) = emit RCTLogSetWarningHandler
        (if isTesting E
         then store_setDisabled True
                (s4\<lparr>console_props := (console_props s4)(''disableYellowBox'' \<mapsto> LegacyAccessor)\<rparr>)
         else s4\<lparr>console_props := (console_props s4)(''disableYellowBox'' \<mapsto> LegacyAccessor)\<rparr>)"
    using assms unfolding install_def Let_def s4_def s3_def
    by (cases "migrate_legacy_flag E
           ((capture_originals (emit RequireNativeLogBox (s\<lparr>isLogBoxInstalled := True\<rparr>)))
              \<lparr>consoleErrorImpl := Some RegisterErrorFn, consoleWarnImpl := Some RegisterWarningFn\<rparr>)")
       simp_all
  show "isLogBoxInstalled (state_of (install E s))"
    using res f(1) s3_fields(1) by (auto simp: emit_def store_setDisabled_def)
  show "originalConsoleError (state_of (install E s)) =
           (if originalConsoleError s = None then Some (Bound (console_error s))
            else originalConsoleError s)"
    using res f(2) s3_fields(2) by (auto simp: emit_def store_setDisabled_def)
  show "originalConsoleWarn (state_of (install E s)) =
           (if originalConsoleError s = None then Some (Bound (console_warn s))
            else originalConsoleWarn s)"
    using res f(3) s3_fields(3) by (auto simp: emit_def store_setDisabled_def)
  show "consoleErrorImpl (state_of (install E s)) = Some RegisterErrorFn"
    using res f(4) s3_fields(4) by (auto simp: emit_def store_setDisabled_def)
  show "consoleWarnImpl (state_of (install E s)) = Some RegisterWarningFn"
    using res f(5) s3_fields(5) by (auto simp: emit_def store_setDisabled_def)
  show "console_error (state_of (install E s)) =
           (if originalConsoleError s = None then ErrorWrapper else console_error s)"
    using res f(6) s3_fields(6) by (auto simp: emit_def store_setDisabled_def)
  show "console_warn (state_of (install E s)) =
           (if originalConsoleError s = None then WarnWrapper else console_warn s)"
    using res f(7) s3_fields(7) by (auto simp: emit_def store_setDisabled_def)
  show "captures (state_of (install E s)) =
           captures s @ (if originalConsoleError s = None
                         then [HostBind (console_error s), HostBind (console_warn s)] else [])"
    using res f(9) s3_fields(8) by (auto simp: emit_def store_setDisabled_def captures_def)
qed

lemma install_installed: "isLogBoxInstalled (state_of (install E s))"
  by (cases "isLogBoxInstalled s") (simp_all add: install_fields(1), simp add: install_def)

lemma step_keeps_originals:
  assumes "originalConsoleError s \<noteq> None"
  shows "originalConsoleError (step E s op) = originalConsoleError s"
    and "originalConsoleWarn (step E s op) = originalConsoleWarn s"
    and "console_error (step E s op) = console_error s"
    and "console_warn (step E s op) = console_warn s"
    and "captures (step E s op) = captures s"
proof -
  have inst: "originalConsoleError (state_of (install E s)) = originalConsoleError s
      \<and> originalConsoleWarn (state_of (install E s)) = originalConsoleWarn s
      \<and> console_error (state_of (install E s)) = console_error s
      \<and> console_warn (state_of (install E s)) = console_warn s
      \<and> captures (state_of (install E s)) = captures s"
  proof (cases "isLogBoxInstalled s")
    case True
    then show ?thesis by (simp add: install_def)
  next
    case False
    from install_fields[OF False, of E] assms show ?thesis by simp
  qed
  have inv: "\<And>f args. store_only s (state_of (invoke E f args s))"
    by (rule store_only_invoke)
  show "originalConsoleError (step E s op) = originalConsoleError s"
    using inst store_only_fields(2)[OF inv]
    by (cases op) (simp_all add: uninstall_def addLog_def addException_def store_addLog_def
        store_addException_def emit_def)
  show "originalConsoleWarn (step E s op) = originalConsoleWarn s"
    using inst store_only_fields(3)[OF inv]
    by (cases op) (simp_all add: uninstall_def addLog_def addException_def store_addLog_def
        store_addException_def emit_def)
  show "console_error (step E s op) = console_error s"
    using inst store_only_fields(6)[OF inv]
    by (cases op) (simp_all add: uninstall_def addLog_def addException_def store_addLog_def
        store_addException_def emit_def)
  show "console_warn (step E s op) = console_warn s"
    using inst store_only_fields(7)[OF inv]
    by (cases op) (simp_all add: uninstall_def addLog_def addException_def store_addLog_def
        store_addException_def emit_def)
  show "captures (step E s op) = captures s"
    using inst store_only_fields(9)[OF inv]
    by (cases op) (simp_all add: uninstall_def addLog_def addException_def store_addLog_def
        store_addException_def emit_def captures_def)
qed

lemma pristine_loaded: "pristine ce cw (loaded ce cw props d)"
  by (simp add: pristine_def loaded_def captures_def)

lemma store_only_pristine: "store_only s s' \<Longrightarrow> pristine ce cw s \<Longrightarrow> pristine ce cw s'"
  by (simp add: pristine_def store_only_fields)

lemma store_only_intercepting:
  "store_only s s' \<Longrightarrow> intercepting ce cw s \<Longrightarrow> intercepting ce cw s'"
  by (simp add: intercepting_def store_only_fields)

lemma pristine_step:
  assumes "pristine ce cw s" and "op \<noteq> Install"
  shows "pristine ce cw (step E s op)"
proof (cases op)
  case Install
  with assms show ?thesis by simp
next
  case Uninstall
  with assms show ?thesis by (simp add: uninstall_def pristine_def)
next
  case (ConsoleError args)
  with assms show ?thesis by (simp add: store_only_pristine[OF store_only_invoke])
next
  case (ConsoleWarn args)
  with assms show ?thesis by (simp add: store_only_pristine[OF store_only_invoke])
next
  case (AddLog l)
  with assms show ?thesis by (simp add: addLog_def pristine_def)
next
  case (AddException x)
  with assms show ?thesis by (simp add: addException_def pristine_def)
qed

lemma pristine_install:
  assumes "pristine ce cw s"
  shows "intercepting ce cw (step E s Install)"
proof -
  from assms have n: "\<not> isLogBoxInstalled s" by (simp add: pristine_def)
  from install_fields[OF n, of E] assms show ?thesis
    by (simp add: intercepting_def pristine_def)
qed

lemma intercepting_step:
  assumes "intercepting ce cw s"
  shows "intercepting ce cw (step E s op)"
proof (cases op)
  case Install
  show ?thesis
  proof (cases "isLogBoxInstalled s")
    case True
    with Install assms show ?thesis by (simp add: install_def)
  next
    case False
    from install_fields[OF False, of E] assms Install show ?thesis
      by (simp add: intercepting_def)
  qed
next
  case Uninstall
  with assms show ?thesis by (simp add: uninstall_def intercepting_def captures_def)
next
  case (ConsoleError args)
  with assms show ?thesis by (simp add: store_only_intercepting[OF store_only_invoke])
next
  case (ConsoleWarn args)
  with assms show ?thesis by (simp add: store_only_intercepting[OF store_only_invoke])
next
  case (AddLog l)
  with assms show ?thesis
    by (simp add: addLog_def store_addLog_def store_only_intercepting[OF store_only_emit])
next
  case (AddException x)
  with assms show ?thesis
    by (simp add: addException_def store_addException_def store_only_intercepting[OF store_only_emit])
qed

lemma run_snoc: "run E (ops @ [op]) s = step E (run E ops s) op"
  by (simp add: run_def)

lemma run_invariant:
  "if Install \<in> set ops then intercepting ce cw (run E ops (loaded ce cw props d))
   else pristine ce cw (run E ops (loaded ce cw props d))"
proof (induction ops rule: rev_induct)
  case Nil
  show ?case by (simp add: run_def pristine_loaded)
next
  case (snoc op ops)
  show ?case
  proof (cases "Install \<in> set ops")
    case True
    with snoc have "intercepting ce cw (run E ops (loaded ce cw props d))" by simp
    from intercepting_step[OF this, of E op] True show ?thesis by (simp add: run_snoc)
  next
    case False
    with snoc have p: "pristine ce cw (run E ops (loaded ce cw props d))" by simp
    show ?thesis
    proof (cases "op = Install")
      case True
      with pristine_install[OF p, of E] show ?thesis by (simp add: run_snoc)
    next
      case False
      with pristine_step[OF p False, of E] \<open>Install \<notin> set ops\<close> show ?thesis
        by (simp add: run_snoc)
    qed
  qed
qed

section \<open>Facts about single calls\<close>

lemma invoke_wrappers_uninstalled:
  assumes "intercepting ce cw u" and "\<not> isLogBoxInstalled u"
  shows "invoke E (console_error u) args u = Done (emit (HostCall (Bound ce) args) u)"
    and "invoke E (console_warn u) args u = Done (emit (HostCall (Bound cw) args) u)"
  using assms by (simp_all add: intercepting_def invoke_def)

lemma intercepting_uninstall:
  assumes "intercepting ce cw s"
  shows "intercepting ce cw (uninstall s)" and "\<not> isLogBoxInstalled (uninstall s)"
  using intercepting_step[OF assms, of E Uninstall] by (simp_all add: uninstall_def)

lemma js_replace_prefix: "startsWith a p \<Longrightarrow> js_replace a p [] = drop (length p) a"
  by (cases a) (auto simp: startsWith_def)

lemma demo_installed_eq:
  "demo_installed =
     \<lparr>isLogBoxInstalled = True,
      originalConsoleError = Some (Bound (Host 0)), originalConsoleWarn = Some (Bound (Host 1)),
      consoleErrorImpl = Some RegisterErrorFn, consoleWarnImpl = Some RegisterWarningFn,
      console_error = ErrorWrapper, console_warn = WarnWrapper,
      console_props = [''disableYellowBox'' \<mapsto> LegacyAccessor], disabled = False,
      effects = [RequireNativeLogBox, HostBind (Host 0), HostBind (Host 1),
                 RCTLogSetWarningHandler]\<rparr>"
  by (simp add: demo_installed_def demo_loaded_def loaded_def install_def capture_originals_def
      emit_def migrate_legacy_flag_def console_get_def demo_env_def Let_def)

lemma catch_report_Done: "\<exists>t. catch_report r = Done t"
  by (cases r) (simp_all add: catch_report_def)

lemma registerWarning_self_report:
  "js_String E (arg0 args) = Inr m \<Longrightarrow> isLogBoxErrorMessage E (Str m) \<Longrightarrow>
   registerWarning E args s = call_original (originalConsoleError s) args s"
  by (simp add: registerWarning_def)

lemma registerWarning_advice:
  "js_String E (arg0 args) = Inr m \<Longrightarrow> \<not> isLogBoxErrorMessage E (Str m) \<Longrightarrow>
   isRCTLogAdviceWarning args \<Longrightarrow> registerWarning E args s = Done s"
  by (simp add: registerWarning_def registerWarning_try_def catch_report_def)

lemma uninstall_keeps_disableYellowBox:
  "console_props (uninstall s) ''disableYellowBox'' = console_props s ''disableYellowBox''"
  by (simp add: uninstall_def)

lemma install_defines_disableYellowBox:
  "\<not> isLogBoxInstalled s \<Longrightarrow> install E s = Done s' \<Longrightarrow>
   console_props s' ''disableYellowBox'' = Some LegacyAccessor"
  by (auto simp: install_def Let_def emit_def store_setDisabled_def split: outcome.splits)

section \<open>The claims\<close>

text \<open>
  Claim C5. Over every sequence of calls of the module from the freshly loaded state
  (\<^verbatim>\<open>install\<close>, \<^verbatim>\<open>uninstall\<close>, and also console calls and manual injections between
  them), the original \<^verbatim>\<open>console.error\<close> and \<^verbatim>\<open>console.warn\<close> are captured exactly
  once, by the first \<^verbatim>\<open>install\<close>: the trace holds the two \<^verbatim>\<open>bind\<close> calls of the load-time
  functions if the sequence has an install and none otherwise, and the saved references
  are those two. From any state whose originals are already saved, no call captures
  again or changes the saved references.
\<close>

theorem originals_captured_once:
  "captures (run E ops (loaded ce cw props d)) =
     (if Install \<in> set ops then [HostBind ce, HostBind cw] else [])
   \<and> originalConsoleError (run E ops (loaded ce cw props d)) =
     (if Install \<in> set ops then Some (Bound ce) else None)
   \<and> originalConsoleWarn (run E ops (loaded ce cw props d)) =
     (if Install \<in> set ops then Some (Bound cw) else None)
   \<and> (originalConsoleError s \<noteq> None \<longrightarrow>
        originalConsoleError (step E s op) = originalConsoleError s
        \<and> originalConsoleWarn (step E s op) = originalConsoleWarn s
        \<and> captures (step E s op) = captures s)"
proof -
  have "Install \<in> set ops \<Longrightarrow> intercepting ce cw (run E ops (loaded ce cw props d))"
    and "Install \<notin> set ops \<Longrightarrow> pristine ce cw (run E ops (loaded ce cw props d))"
    using run_invariant[of ops ce cw E props d] by simp_all
  then have "captures (run E ops (loaded ce cw props d)) =
      (if Install \<in> set ops then [HostBind ce, HostBind cw] else [])"
    and "originalConsoleError (run E ops (loaded ce cw props d)) =
      (if Install \<in> set ops then Some (Bound ce) else None)"
    and "originalConsoleWarn (run E ops (loaded ce cw props d)) =
      (if Install \<in> set ops then Some (Bound cw) else None)"
    by (auto simp: intercepting_def pristine_def)
  then show ?thesis
    using step_keeps_originals(1,2,5)[of s E op] by simp
qed

theorem originals_captured_once_witness:
  "captures (run demo_env [Install, Uninstall, Install, Uninstall] demo_loaded) =
     [HostBind (Host 0), HostBind (Host 1)]
   \<and> originalConsoleError (run demo_env [Install, Uninstall, Install, Uninstall] demo_loaded) =
     Some (Bound (Host 0))
   \<and> originalConsoleError demo_installed \<noteq> None
   \<and> originalConsoleError (step demo_env demo_installed Uninstall) = Some (Bound (Host 0))
   \<and> captures (step demo_env (step demo_env demo_installed Uninstall) Install) =
     [HostBind (Host 0), HostBind (Host 1)]"
  using originals_captured_once[of demo_env "[Install, Uninstall, Install, Uninstall]"
      "Host 0" "Host 1" Map.empty False demo_installed Uninstall]
    originals_captured_once[of demo_env "[]" "Host 0" "Host 1" Map.empty False
      "step demo_env demo_installed Uninstall" Install]
  by (simp add: demo_loaded_def demo_installed_def loaded_def install_def capture_originals_def
      emit_def migrate_legacy_flag_def console_get_def demo_env_def Let_def uninstall_def
      captures_def)

text \<open>
  Claim C1, as amended. For an error call whose first argument starts with
  \<^verbatim>\<open>"Warning: "\<close>, whose filter lookup yields \<^verbatim>\<open>forceDialogImmediately = true\<close>, and
  whose message is neither suppressed nor ignored, the record handed to the store has level
  \<^verbatim>\<open>'fatal'\<close> when \<^verbatim>\<open>suppressDialog_LEGACY\<close> is not set, and level \<^verbatim>\<open>'warn'\<close> when it
  is: line 215 tests \<^verbatim>\<open>suppressDialog_LEGACY\<close> first and line 217 is its \<^verbatim>\<open>else\<close>.
\<close>

theorem forced_dialog_level:
  assumes "arg0 args = Str a"
    and "startsWith a ''Warning: ''"
    and "\<not> isLogBoxErrorMessage E (Str a)"
    and "checkWarningFilter E (js_replace a ''Warning: '' []) = Inr fr"
    and "\<not> suppressCompletely fr"
    and "forceDialogImmediately fr"
    and "parseLogBoxLog E (args[0 := Str (''Warning: '' @ finalFormat fr)]) = Inr p"
    and "\<not> isMessageIgnored E (content (message p))"
    and "parseInterpolation E (args[0 := Str (''Warning: '' @ finalFormat fr)]) = Inr q"
    and "originalConsoleError s = Some orig"
  shows "registerError E args s =
     Done (store_addLog
       \<lparr>category = category p, message = message p, componentStack = componentStack p,
        level = (if suppressDialog_LEGACY fr then Warn else Fatal)\<rparr>
       (emit (HostCall orig [Str (content (message q))]) s))"
  using assms
  by (simp add: registerError_def registerError_try_def isWarningModuleWarning_def
      catch_report_def call_original_def Let_def)

theorem forced_dialog_level_witness:
  "forceDialogImmediately \<lparr>suppressCompletely = False, suppressDialog_LEGACY = False,
        forceDialogImmediately = True, finalFormat = ''force''\<rparr>
   \<and> checkWarningFilter demo_env ''force'' =
       Inr \<lparr>suppressCompletely = False, suppressDialog_LEGACY = False,
            forceDialogImmediately = True, finalFormat = ''force''\<rparr>
   \<and> log_levels (state_of (registerError demo_env [Str ''Warning: force''] demo_installed)) = [Fatal]
   \<and> forceDialogImmediately \<lparr>suppressCompletely = False, suppressDialog_LEGACY = True,
        forceDialogImmediately = True, finalFormat = ''both''\<rparr>
   \<and> log_levels (state_of (registerError demo_env [Str ''Warning: both''] demo_installed)) = [Warn]"
proof -
  let ?fb = "\<lparr>suppressCompletely = False, suppressDialog_LEGACY = True,
        forceDialogImmediately = True, finalFormat = ''both''\<rparr>"
  let ?pb = "\<lparr>category = ''Warning: both'',
        message = \<lparr>content = ''Warning: both'', substitutions = []\<rparr>, componentStack = []\<rparr>"
  have b1: "arg0 [Str ''Warning: both''] = Str ''Warning: both''"
    by (simp add: arg0_def)
  have b2: "startsWith ''Warning: both'' ''Warning: ''"
    by (simp add: startsWith_def)
  have b3: "\<not> isLogBoxErrorMessage demo_env (Str ''Warning: both'')"
    by (simp add: demo_env_def)
  have b4: "checkWarningFilter demo_env (js_replace ''Warning: both'' ''Warning: '' []) = Inr ?fb"
    by (simp add: demo_env_def demo_filter_def startsWith_def)
  have b5: "\<not> suppressCompletely ?fb" and b6: "forceDialogImmediately ?fb"
    by simp_all
  have b7: "parseLogBoxLog demo_env
      ([Str ''Warning: both''][0 := Str (''Warning: '' @ finalFormat ?fb)]) = Inr ?pb"
    by (simp add: demo_env_def demo_parse_def arg0_def)
  have b8: "\<not> isMessageIgnored demo_env (content (message ?pb))"
    by (simp add: demo_env_def)
  have b9: "parseInterpolation demo_env
      ([Str ''Warning: both''][0 := Str (''Warning: '' @ finalFormat ?fb)]) = Inr ?pb"
    by (simp add: demo_env_def demo_interpolate_def demo_parse_def arg0_def)
  let ?fr = "\<lparr>suppressCompletely = False, suppressDialog_LEGACY = False,
        forceDialogImmediately = True, finalFormat = ''force''\<rparr>"
  let ?p = "\<lparr>category = ''Warning: force'',
        message = \<lparr>content = ''Warning: force'', substitutions = []\<rparr>, componentStack = []\<rparr>"
  have h1: "arg0 [Str ''Warning: force''] = Str ''Warning: force''"
    by (simp add: arg0_def)
  have h2: "startsWith ''Warning: force'' ''Warning: ''"
    by (simp add: startsWith_def)
  have h3: "\<not> isLogBoxErrorMessage demo_env (Str ''Warning: force'')"
    by (simp add: demo_env_def)
  have f: "checkWarningFilter demo_env ''force'' = Inr ?fr"
    by (simp add: demo_env_def demo_filter_def)
  have h4: "checkWarningFilter demo_env (js_replace ''Warning: force'' ''Warning: '' []) = Inr ?fr"
    using f by (simp add: startsWith_def)
  have h5: "\<not> suppressCompletely ?fr" and h6: "forceDialogImmediately ?fr"
    by simp_all
  have h7: "parseLogBoxLog demo_env
      ([Str ''Warning: force''][0 := Str (''Warning: '' @ finalFormat ?fr)]) = Inr ?p"
    by (simp add: demo_env_def demo_parse_def arg0_def)
  have h8: "\<not> isMessageIgnored demo_env (content (message ?p))"
    by (simp add: demo_env_def)
  have h9: "parseInterpolation demo_env
      ([Str ''Warning: force''][0 := Str (''Warning: '' @ finalFormat ?fr)]) = Inr ?p"
    by (simp add: demo_env_def demo_interpolate_def demo_parse_def arg0_def)
  have h10: "originalConsoleError demo_installed = Some (Bound (Host 0))"
    by (simp add: demo_installed_eq)
  from forced_dialog_level[OF h1 h2 h3 h4 h5 h6 h7 h8 h9 h10]
    forced_dialog_level[OF b1 b2 b3 b4 b5 b6 b7 b8 b9 h10] f h6 b6
  show ?thesis
    by (simp add: log_levels_def store_addLog_def emit_def demo_installed_eq)
qed

text \<open>
  The claim as stated fails where the lookup sets both flags: the emitted record has level
  \<^verbatim>\<open>'warn'\<close>, not \<^verbatim>\<open>'fatal'\<close>.
\<close>

theorem both_flags_counterexample:
  "checkWarningFilter demo_env ''both'' =
       Inr \<lparr>suppressCompletely = False, suppressDialog_LEGACY = True,
            forceDialogImmediately = True, finalFormat = ''both''\<rparr>
   \<and> \<not> isLogBoxErrorMessage demo_env (Str ''Warning: both'')
   \<and> \<not> isMessageIgnored demo_env ''Warning: both''
   \<and> log_levels (state_of (registerError demo_env [Str ''Warning: both''] demo_installed)) = [Warn]
   \<and> log_levels (state_of (registerError demo_env [Str ''Warning: both''] demo_installed)) \<noteq> [Fatal]"
  by (simp add: registerError_def registerError_try_def isWarningModuleWarning_def
      catch_report_def call_original_def Let_def demo_env_def demo_filter_def demo_parse_def
      demo_interpolate_def arg0_def startsWith_def log_levels_def store_addLog_def emit_def
      demo_installed_eq)

text \<open>
  Claim C2. A warning call whose first argument is the component's own self-reporting
  message is to pass through to the original warn channel with no record. Line 163 calls
  \<^verbatim>\<open>originalConsoleError\<close>: in the installed process, \<^verbatim>\<open>console.warn\<close> of the
  self-reporting message reaches the bound original \<^verbatim>\<open>console.error\<close> (\<open>Host 0\<close>), and
  the original \<^verbatim>\<open>console.warn\<close> (\<open>Host 1\<close>) is not called.
\<close>

theorem self_report_warning_reaches_error_channel:
  "isLogBoxErrorMessage demo_env
     (Str ''An error was thrown when attempting to render log messages via LogBox.'')
   \<and> originalConsoleError demo_installed = Some (Bound (Host 0))
   \<and> originalConsoleWarn demo_installed = Some (Bound (Host 1))
   \<and> invoke demo_env (console_warn demo_installed)
       [Str ''An error was thrown when attempting to render log messages via LogBox.'']
       demo_installed =
     Done (emit (HostCall (Bound (Host 0))
       [Str ''An error was thrown when attempting to render log messages via LogBox.''])
       demo_installed)
   \<and> host_calls (state_of (invoke demo_env (console_warn demo_installed)
       [Str ''An error was thrown when attempting to render log messages via LogBox.'']
       demo_installed)) =
     [HostCall (Bound (Host 0))
       [Str ''An error was thrown when attempting to render log messages via LogBox.'']]"
  by (simp add: demo_installed_eq invoke_def registerWarning_def call_original_def arg0_def
      demo_env_def host_calls_def emit_def)

text \<open>
  Claim C3. A warning call whose first argument starts with \<^verbatim>\<open>"(ADVICE)"\<close> is to
  produce no record and to reach the original warn channel with its arguments. In the
  source the pass-through of line 173 stands inside \<^verbatim>\<open>if (!isRCTLogAdviceWarning(...args))\<close>:
  in the installed process such a call leaves the state as it was, with no record and no
  call of any host function.
\<close>

theorem advice_warning_not_passed_through:
  "isRCTLogAdviceWarning [Str ''(ADVICE) use the new architecture'']
   \<and> \<not> isLogBoxErrorMessage demo_env (Str ''(ADVICE) use the new architecture'')
   \<and> invoke demo_env (console_warn demo_installed) [Str ''(ADVICE) use the new architecture'']
       demo_installed = Done demo_installed
   \<and> host_calls (state_of (invoke demo_env (console_warn demo_installed)
       [Str ''(ADVICE) use the new architecture''] demo_installed)) = []
   \<and> log_levels (state_of (invoke demo_env (console_warn demo_installed)
       [Str ''(ADVICE) use the new architecture''] demo_installed)) = []"
  by (simp add: demo_installed_eq invoke_def registerWarning_def registerWarning_try_def
      catch_report_def isRCTLogAdviceWarning_def startsWith_def arg0_def demo_env_def
      host_calls_def log_levels_def)

text \<open>
  Claim C4. \<^verbatim>\<open>uninstall\<close> is to point the active implementations back at the captured
  originals and to remove the legacy-flag accessor that \<^verbatim>\<open>install\<close> defined. The first
  half holds; but \<^verbatim>\<open>install\<close> defines \<^verbatim>\<open>disableYellowBox\<close> (line 85) and
  \<^verbatim>\<open>uninstall\<close> deletes \<^verbatim>\<open>disableLogBox\<close> (line 118), so after install and uninstall
  from the loaded state the accessor is still on \<^verbatim>\<open>console\<close> and still answers.
\<close>

theorem uninstall_leaves_legacy_accessor:
  "console_props demo_loaded ''disableYellowBox'' = None
   \<and> install demo_env demo_loaded = Done demo_installed
   \<and> console_props demo_installed ''disableYellowBox'' = Some LegacyAccessor
   \<and> console_props (uninstall demo_installed) ''disableYellowBox'' = Some LegacyAccessor
   \<and> console_get (uninstall demo_installed) ''disableYellowBox'' = Bool False
   \<and> consoleErrorImpl (uninstall demo_installed) = originalConsoleError demo_installed
   \<and> consoleWarnImpl (uninstall demo_installed) = originalConsoleWarn demo_installed"
proof -
  have "install demo_env demo_loaded = Done demo_installed"
    unfolding demo_installed_eq
    by (simp add: demo_loaded_def loaded_def install_def capture_originals_def
      emit_def migrate_legacy_flag_def console_get_def demo_env_def Let_def)
  then show ?thesis
    by (simp add: demo_installed_eq uninstall_def console_get_def) (simp add: demo_loaded_def loaded_def)
qed

text \<open>
  Claim C6. \<^verbatim>\<open>uninstall\<close> never assigns \<^verbatim>\<open>console.error\<close> or \<^verbatim>\<open>console.warn\<close>: in every
  state it leaves both as they are, keeps the saved originals and calls nothing. Once a run from the loaded state has
  installed, the two wrappers of the first install are on the console whatever calls of
  the module follow; \<^verbatim>\<open>uninstall\<close> only points the variables the wrappers dispatch through
  at the captured originals, so a call of a wrapper then reaches the original entry point
  with its arguments.
\<close>

theorem uninstall_keeps_wrappers:
  "console_error (uninstall s) = console_error s
   \<and> console_warn (uninstall s) = console_warn s
   \<and> originalConsoleError (uninstall s) = originalConsoleError s
   \<and> originalConsoleWarn (uninstall s) = originalConsoleWarn s
   \<and> disabled (uninstall s) = disabled s
   \<and> effects (uninstall s) = effects s
   \<and> (Install \<in> set ops \<longrightarrow>
        console_error (run E ops (loaded ce cw props d)) = ErrorWrapper
        \<and> console_warn (run E ops (loaded ce cw props d)) = WarnWrapper
        \<and> consoleErrorImpl (uninstall (run E ops (loaded ce cw props d))) = Some (Bound ce)
        \<and> consoleWarnImpl (uninstall (run E ops (loaded ce cw props d))) = Some (Bound cw)
        \<and> invoke E ErrorWrapper args (uninstall (run E ops (loaded ce cw props d))) =
            Done (emit (HostCall (Bound ce) args) (uninstall (run E ops (loaded ce cw props d))))
        \<and> invoke E WarnWrapper args (uninstall (run E ops (loaded ce cw props d))) =
            Done (emit (HostCall (Bound cw) args) (uninstall (run E ops (loaded ce cw props d)))))"
proof -
  have frame: "console_error (uninstall s) = console_error s"
    "console_warn (uninstall s) = console_warn s"
    "originalConsoleError (uninstall s) = originalConsoleError s"
    "originalConsoleWarn (uninstall s) = originalConsoleWarn s"
    "disabled (uninstall s) = disabled s" "effects (uninstall s) = effects s"
    by (simp_all add: uninstall_def)
  have "Install \<in> set ops \<Longrightarrow> intercepting ce cw (run E ops (loaded ce cw props d))"
    using run_invariant[of ops ce cw E props d] by simp
  then have after: "Install \<in> set ops \<Longrightarrow>
        console_error (run E ops (loaded ce cw props d)) = ErrorWrapper
        \<and> console_warn (run E ops (loaded ce cw props d)) = WarnWrapper
        \<and> consoleErrorImpl (uninstall (run E ops (loaded ce cw props d))) = Some (Bound ce)
        \<and> consoleWarnImpl (uninstall (run E ops (loaded ce cw props d))) = Some (Bound cw)
        \<and> invoke E ErrorWrapper args (uninstall (run E ops (loaded ce cw props d))) =
            Done (emit (HostCall (Bound ce) args) (uninstall (run E ops (loaded ce cw props d))))
        \<and> invoke E WarnWrapper args (uninstall (run E ops (loaded ce cw props d))) =
            Done (emit (HostCall (Bound cw) args) (uninstall (run E ops (loaded ce cw props d))))"
    using intercepting_uninstall[of ce cw "run E ops (loaded ce cw props d)"]
      invoke_wrappers_uninstalled[of ce cw "uninstall (run E ops (loaded ce cw props d))" E args]
    by (simp add: intercepting_def)
  from frame after show ?thesis by blast
qed

theorem uninstall_keeps_wrappers_witness:
  "Install \<in> set [Install, ConsoleWarn [Str ''x'']]
   \<and> console_error (run demo_env [Install, ConsoleWarn [Str ''x'']] demo_loaded) = ErrorWrapper
   \<and> console_error (uninstall (run demo_env [Install, ConsoleWarn [Str ''x'']] demo_loaded)) = ErrorWrapper
   \<and> consoleErrorImpl (uninstall (run demo_env [Install, ConsoleWarn [Str ''x'']] demo_loaded)) = Some (Bound (Host 0))
   \<and> effects (state_of (invoke demo_env ErrorWrapper [Str ''boom'']
         (uninstall (run demo_env [Install, ConsoleWarn [Str ''x'']] demo_loaded)))) =
       effects (run demo_env [Install, ConsoleWarn [Str ''x'']] demo_loaded)
         @ [HostCall (Bound (Host 0)) [Str ''boom'']]"
  using uninstall_keeps_wrappers[of "run demo_env [Install, ConsoleWarn [Str ''x'']] demo_loaded"
      "[Install, ConsoleWarn [Str ''x'']]" demo_env "Host 0" "Host 1" Map.empty False "[Str ''boom'']"]
  by (simp add: demo_loaded_def emit_def)

text \<open>
  Claim C7. An exception raised while a diagnostic call is classified is caught and handed
  to \<^verbatim>\<open>LogBoxData.reportLogBoxError\<close>, and the call returns normally: in the warning
  channel when \<^verbatim>\<open>parseLogBoxLog\<close> throws; in the error channel when
  \<^verbatim>\<open>checkWarningFilter\<close>, \<^verbatim>\<open>parseLogBoxLog\<close> or \<^verbatim>\<open>parseInterpolation\<close> throws. In
  both channels every call that is not a self-report (and whose \<^verbatim>\<open>String(args[0])\<close>
  exists) returns normally.
\<close>

theorem classification_exceptions_reported:
  "(js_String E (arg0 args) = Inr m \<and> \<not> isLogBoxErrorMessage E (Str m)
      \<and> \<not> isRCTLogAdviceWarning args \<and> parseLogBoxLog E args = Inl err
      \<longrightarrow> registerWarning E args s = Done (store_reportLogBoxError err s))
   \<and> (arg0 args = Str a \<and> startsWith a ''Warning: '' \<and> \<not> isLogBoxErrorMessage E (Str a)
      \<and> checkWarningFilter E (js_replace a ''Warning: '' []) = Inl err
      \<longrightarrow> registerError E args s = Done (store_reportLogBoxError err s))
   \<and> (arg0 args = Str a \<and> startsWith a ''Warning: '' \<and> \<not> isLogBoxErrorMessage E (Str a)
      \<and> checkWarningFilter E (js_replace a ''Warning: '' []) = Inr fr \<and> \<not> suppressCompletely fr
      \<and> parseLogBoxLog E (args[0 := Str (''Warning: '' @ finalFormat fr)]) = Inl err
      \<longrightarrow> registerError E args s = Done (store_reportLogBoxError err s))
   \<and> (arg0 args = Str a \<and> startsWith a ''Warning: '' \<and> \<not> isLogBoxErrorMessage E (Str a)
      \<and> checkWarningFilter E (js_replace a ''Warning: '' []) = Inr fr \<and> \<not> suppressCompletely fr
      \<and> parseLogBoxLog E (args[0 := Str (''Warning: '' @ finalFormat fr)]) = Inr p
      \<and> \<not> isMessageIgnored E (content (message p))
      \<and> parseInterpolation E (args[0 := Str (''Warning: '' @ finalFormat fr)]) = Inl err
      \<longrightarrow> registerError E args s = Done (store_reportLogBoxError err s))
   \<and> (js_String E (arg0 args) = Inr m \<and> \<not> isLogBoxErrorMessage E (Str m)
      \<longrightarrow> (\<exists>t. registerWarning E args s = Done t))
   \<and> (\<not> isLogBoxErrorMessage E (arg0 args) \<longrightarrow> (\<exists>t. registerError E args s = Done t))"
proof (intro conjI impI)
  assume "js_String E (arg0 args) = Inr m \<and> \<not> isLogBoxErrorMessage E (Str m)
      \<and> \<not> isRCTLogAdviceWarning args \<and> parseLogBoxLog E args = Inl err"
  then show "registerWarning E args s = Done (store_reportLogBoxError err s)"
    by (simp add: registerWarning_def registerWarning_try_def catch_report_def)
next
  assume "arg0 args = Str a \<and> startsWith a ''Warning: '' \<and> \<not> isLogBoxErrorMessage E (Str a)
      \<and> checkWarningFilter E (js_replace a ''Warning: '' []) = Inl err"
  then show "registerError E args s = Done (store_reportLogBoxError err s)"
    by (simp add: registerError_def registerError_try_def isWarningModuleWarning_def
        catch_report_def)
next
  assume "arg0 args = Str a \<and> startsWith a ''Warning: '' \<and> \<not> isLogBoxErrorMessage E (Str a)
      \<and> checkWarningFilter E (js_replace a ''Warning: '' []) = Inr fr \<and> \<not> suppressCompletely fr
      \<and> parseLogBoxLog E (args[0 := Str (''Warning: '' @ finalFormat fr)]) = Inl err"
  then show "registerError E args s = Done (store_reportLogBoxError err s)"
    by (simp add: registerError_def registerError_try_def isWarningModuleWarning_def
        catch_report_def Let_def)
next
  assume "arg0 args = Str a \<and> startsWith a ''Warning: '' \<and> \<not> isLogBoxErrorMessage E (Str a)
      \<and> checkWarningFilter E (js_replace a ''Warning: '' []) = Inr fr \<and> \<not> suppressCompletely fr
      \<and> parseLogBoxLog E (args[0 := Str (''Warning: '' @ finalFormat fr)]) = Inr p
      \<and> \<not> isMessageIgnored E (content (message p))
      \<and> parseInterpolation E (args[0 := Str (''Warning: '' @ finalFormat fr)]) = Inl err"
  then show "registerError E args s = Done (store_reportLogBoxError err s)"
    by (simp add: registerError_def registerError_try_def isWarningModuleWarning_def
        catch_report_def Let_def)
next
  assume "js_String E (arg0 args) = Inr m \<and> \<not> isLogBoxErrorMessage E (Str m)"
  then show "\<exists>t. registerWarning E args s = Done t"
    by (simp add: registerWarning_def catch_report_Done)
next
  assume "\<not> isLogBoxErrorMessage E (arg0 args)"
  then show "\<exists>t. registerError E args s = Done t"
    by (simp add: registerError_def catch_report_Done)
qed

theorem classification_exceptions_reported_witness:
  "parseLogBoxLog demo_env [Str ''Warning: unparsable''] = Inl (Raised 2)
   \<and> registerWarning demo_env [Str ''Warning: unparsable''] demo_installed =
       Done (store_reportLogBoxError (Raised 2) demo_installed)
   \<and> checkWarningFilter demo_env (js_replace ''Warning: no table'' ''Warning: '' []) = Inl (Raised 1)
   \<and> registerError demo_env [Str ''Warning: no table''] demo_installed =
       Done (store_reportLogBoxError (Raised 1) demo_installed)
   \<and> registerError demo_env [Str ''Warning: unparsable''] demo_installed =
       Done (store_reportLogBoxError (Raised 2) demo_installed)
   \<and> parseInterpolation demo_env [Str ''Warning: %s %s''] = Inl (Raised 3)
   \<and> registerError demo_env [Str ''Warning: %s %s''] demo_installed =
       Done (store_reportLogBoxError (Raised 3) demo_installed)"
proof -
  have w: "js_String demo_env (arg0 [Str ''Warning: unparsable'']) = Inr ''Warning: unparsable''
      \<and> \<not> isLogBoxErrorMessage demo_env (Str ''Warning: unparsable'')
      \<and> \<not> isRCTLogAdviceWarning [Str ''Warning: unparsable'']
      \<and> parseLogBoxLog demo_env [Str ''Warning: unparsable''] = Inl (Raised 2)"
    by (simp add: arg0_def demo_env_def demo_parse_def isRCTLogAdviceWarning_def startsWith_def)
  have e1: "arg0 [Str ''Warning: no table''] = Str ''Warning: no table''
      \<and> startsWith ''Warning: no table'' ''Warning: ''
      \<and> \<not> isLogBoxErrorMessage demo_env (Str ''Warning: no table'')
      \<and> checkWarningFilter demo_env (js_replace ''Warning: no table'' ''Warning: '' []) = Inl (Raised 1)"
    by (simp add: arg0_def demo_env_def demo_filter_def startsWith_def)
  let ?fr = "\<lparr>suppressCompletely = False, suppressDialog_LEGACY = False,
        forceDialogImmediately = False, finalFormat = ''unparsable''\<rparr>"
  have e2: "arg0 [Str ''Warning: unparsable''] = Str ''Warning: unparsable''
      \<and> startsWith ''Warning: unparsable'' ''Warning: ''
      \<and> \<not> isLogBoxErrorMessage demo_env (Str ''Warning: unparsable'')
      \<and> checkWarningFilter demo_env (js_replace ''Warning: unparsable'' ''Warning: '' []) = Inr ?fr
      \<and> \<not> suppressCompletely ?fr
      \<and> parseLogBoxLog demo_env ([Str ''Warning: unparsable''][0 := Str (''Warning: '' @ finalFormat ?fr)])
          = Inl (Raised 2)"
    by (simp add: arg0_def demo_env_def demo_filter_def demo_parse_def startsWith_def)
  let ?fr3 = "\<lparr>suppressCompletely = False, suppressDialog_LEGACY = False,
        forceDialogImmediately = False, finalFormat = ''%s %s''\<rparr>"
  let ?p3 = "\<lparr>category = ''Warning: %s %s'',
        message = \<lparr>content = ''Warning: %s %s'', substitutions = []\<rparr>, componentStack = []\<rparr>"
  have e3: "arg0 [Str ''Warning: %s %s''] = Str ''Warning: %s %s''
      \<and> startsWith ''Warning: %s %s'' ''Warning: ''
      \<and> \<not> isLogBoxErrorMessage demo_env (Str ''Warning: %s %s'')
      \<and> checkWarningFilter demo_env (js_replace ''Warning: %s %s'' ''Warning: '' []) = Inr ?fr3
      \<and> \<not> suppressCompletely ?fr3
      \<and> parseLogBoxLog demo_env ([Str ''Warning: %s %s''][0 := Str (''Warning: '' @ finalFormat ?fr3)])
          = Inr ?p3
      \<and> \<not> isMessageIgnored demo_env (content (message ?p3))
      \<and> parseInterpolation demo_env ([Str ''Warning: %s %s''][0 := Str (''Warning: '' @ finalFormat ?fr3)])
          = Inl (Raised 3)"
    by (simp add: arg0_def demo_env_def demo_filter_def demo_parse_def demo_interpolate_def
        startsWith_def)
  note c = classification_exceptions_reported
  from c[of demo_env "[Str ''Warning: unparsable'']" "''Warning: unparsable''" "Raised 2"
        demo_installed] w
  have r1: "registerWarning demo_env [Str ''Warning: unparsable''] demo_installed =
       Done (store_reportLogBoxError (Raised 2) demo_installed)"
    by blast
  from c[of demo_env "[Str ''Warning: no table'']" _ "Raised 1" demo_installed
        "''Warning: no table''"] e1
  have r2: "registerError demo_env [Str ''Warning: no table''] demo_installed =
       Done (store_reportLogBoxError (Raised 1) demo_installed)"
    by blast
  from c[of demo_env "[Str ''Warning: unparsable'']" _ "Raised 2" demo_installed
        "''Warning: unparsable''" ?fr] e2
  have r3: "registerError demo_env [Str ''Warning: unparsable''] demo_installed =
       Done (store_reportLogBoxError (Raised 2) demo_installed)"
    by blast
  from c[of demo_env "[Str ''Warning: %s %s'']" _ "Raised 3" demo_installed
        "''Warning: %s %s''" ?fr3 ?p3] e3
  have r4: "registerError demo_env [Str ''Warning: %s %s''] demo_installed =
       Done (store_reportLogBoxError (Raised 3) demo_installed)"
    by blast
  from r1 r2 r3 r4 w e1 e3 show ?thesis by (simp add: startsWith_def)
qed

text \<open>
  Claim C8. \<^verbatim>\<open>install\<close> and \<^verbatim>\<open>uninstall\<close> are idempotent: from any state, a second
  \<^verbatim>\<open>install\<close> right after the first returns the state the first one left, whole (flag,
  saved originals, active implementations, console, store flag and trace of effects), and
  the same for \<^verbatim>\<open>uninstall\<close>.
\<close>

theorem install_uninstall_idempotent:
  "install E (state_of (install E s)) = Done (state_of (install E s))
   \<and> uninstall (uninstall s) = uninstall s"
proof
  show "install E (state_of (install E s)) = Done (state_of (install E s))"
    using install_installed[of E s] by (simp add: install_def)
  show "uninstall (uninstall s) = uninstall s"
    by (simp add: uninstall_def)
qed

theorem install_uninstall_idempotent_witness:
  "install demo_env (state_of (install demo_env demo_loaded)) =
     Done (state_of (install demo_env demo_loaded))
   \<and> isLogBoxInstalled (state_of (install demo_env demo_loaded))
   \<and> uninstall (uninstall demo_installed) = uninstall demo_installed
   \<and> \<not> isLogBoxInstalled (uninstall demo_installed)"
  using install_uninstall_idempotent[of demo_env demo_loaded]
    install_uninstall_idempotent[of demo_env demo_installed]
  by (simp add: install_installed uninstall_def)

text \<open>
  Claim C9. \<^verbatim>\<open>addLog(r)\<close> and \<^verbatim>\<open>addException(r)\<close> change nothing while the module is
  uninstalled (no call into the store), and while it is installed they hand \<open>r\<close> to the
  store exactly once and change nothing else.
\<close>

theorem addLog_only_when_installed:
  "(\<not> isLogBoxInstalled s \<longrightarrow> addLog l s = s \<and> addException x s = s)
   \<and> (isLogBoxInstalled s \<longrightarrow>
        addLog l s = s\<lparr>effects := effects s @ [StoreAddLog l]\<rparr>
        \<and> addException x s = s\<lparr>effects := effects s @ [StoreAddException x]\<rparr>)"
  by (simp add: addLog_def addException_def store_addLog_def store_addException_def emit_def)

theorem addLog_only_when_installed_witness:
  "\<not> isLogBoxInstalled demo_loaded
   \<and> effects (addLog demo_log demo_loaded) = []
   \<and> effects (addException (ExceptionRef 0) demo_loaded) = []
   \<and> isLogBoxInstalled demo_installed
   \<and> effects (addLog demo_log demo_installed) = effects demo_installed @ [StoreAddLog demo_log]
   \<and> effects (addException (ExceptionRef 0) demo_installed) =
       effects demo_installed @ [StoreAddException (ExceptionRef 0)]"
  using addLog_only_when_installed[of demo_loaded demo_log "ExceptionRef 0"]
    addLog_only_when_installed[of demo_installed demo_log "ExceptionRef 0"]
    install_installed[of demo_env demo_loaded]
  by (simp add: demo_installed_def) (simp add: demo_loaded_def loaded_def)

text \<open>
  Claim C10. An error call whose first argument starts with \<^verbatim>\<open>"Warning: "\<close>, that is not
  a self-report, that the filter does not suppress completely and whose parsed message
  content is ignored, is dropped: the call returns with the state unchanged, so neither
  the original error channel nor the store is called. The same holds for the call made
  through the \<^verbatim>\<open>console.error\<close> wrapper while installed.
\<close>

theorem ignored_warning_error_dropped:
  assumes "arg0 args = Str a"
    and "startsWith a ''Warning: ''"
    and "\<not> isLogBoxErrorMessage E (Str a)"
    and "checkWarningFilter E (js_replace a ''Warning: '' []) = Inr fr"
    and "\<not> suppressCompletely fr"
    and "parseLogBoxLog E (args[0 := Str (''Warning: '' @ finalFormat fr)]) = Inr p"
    and "isMessageIgnored E (content (message p))"
  shows "registerError E args s = Done s
    \<and> (consoleErrorImpl s = Some RegisterErrorFn \<longrightarrow> invoke E ErrorWrapper args s = Done s)"
proof -
  have "registerError E args s = Done s"
    using assms
    by (simp add: registerError_def registerError_try_def isWarningModuleWarning_def
        catch_report_def Let_def)
  then show ?thesis by (simp add: invoke_def)
qed

theorem ignored_warning_error_dropped_witness:
  "arg0 [Str ''Warning: ignored''] = Str ''Warning: ignored''
   \<and> startsWith ''Warning: ignored'' ''Warning: ''
   \<and> \<not> isLogBoxErrorMessage demo_env (Str ''Warning: ignored'')
   \<and> consoleErrorImpl demo_installed = Some RegisterErrorFn
   \<and> registerError demo_env [Str ''Warning: ignored''] demo_installed = Done demo_installed
   \<and> invoke demo_env ErrorWrapper [Str ''Warning: ignored''] demo_installed = Done demo_installed"
proof -
  have h1: "arg0 [Str ''Warning: ignored''] = Str ''Warning: ignored''"
    by (simp add: arg0_def)
  have h2: "startsWith ''Warning: ignored'' ''Warning: ''"
    by (simp add: startsWith_def)
  have h3: "\<not> isLogBoxErrorMessage demo_env (Str ''Warning: ignored'')"
    by (simp add: demo_env_def)
  have h4: "checkWarningFilter demo_env (js_replace ''Warning: ignored'' ''Warning: '' []) =
      Inr \<lparr>suppressCompletely = False, suppressDialog_LEGACY = False,
           forceDialogImmediately = False, finalFormat = ''ignored''\<rparr>"
    by (simp add: demo_env_def demo_filter_def startsWith_def)
  have h5: "\<not> suppressCompletely \<lparr>suppressCompletely = False, suppressDialog_LEGACY = False,
           forceDialogImmediately = False, finalFormat = ''ignored''\<rparr>"
    by simp
  have h6: "parseLogBoxLog demo_env ([Str ''Warning: ignored''][0 := Str (''Warning: '' @ finalFormat
      \<lparr>suppressCompletely = False, suppressDialog_LEGACY = False,
           forceDialogImmediately = False, finalFormat = ''ignored''\<rparr>)]) =
      Inr \<lparr>category = ''Warning: ignored'',
           message = \<lparr>content = ''Warning: ignored'', substitutions = []\<rparr>,
           componentStack = []\<rparr>"
    by (simp add: demo_env_def demo_parse_def arg0_def)
  have h7: "isMessageIgnored demo_env (content (message \<lparr>category = ''Warning: ignored'',
           message = \<lparr>content = ''Warning: ignored'', substitutions = []\<rparr>,
           componentStack = []\<rparr>))"
    by (simp add: demo_env_def)
  have h8: "consoleErrorImpl demo_installed = Some RegisterErrorFn"
    using install_fields(4)[of demo_loaded demo_env]
    by (simp add: demo_installed_def demo_loaded_def loaded_def)
  from ignored_warning_error_dropped[OF h1 h2 h3 h4 h5 h6 h7, of demo_installed] h1 h2 h3 h8
  show ?thesis by simp
qed

end
